theory Spec2Isabelle
  imports Main "HOL-Library.Sublist"
begin

section \<open>Tables\<close>

text \<open>
  The two applications (\<^verbatim>\<open>streamlit_app.py\<close> and \<^verbatim>\<open>pages/testing_area_app.py\<close>) load two
  spreadsheets into pandas data frames and keep the attendee rows whose key does not occur
  in the majors' key column.

  A cell of a loaded sheet is empty (pandas reads a blank cell as \<^verbatim>\<open>NaN\<close>), a number or a
  string. Numbers are modelled by their integer value; fractional numbers are outside the
  model. Equality of cells is the constructor equality of the datatype: a string never
  equals a number, and \<^verbatim>\<open>NaN\<close> equals \<^verbatim>\<open>NaN\<close>, which is how \<^verbatim>\<open>Series.isin\<close> looks values up.
\<close>

datatype cell = NaN | Num int | Str string

text \<open>
  Column labels are Python strings, that is lists of code points. The alphabet of the
  model is the code points below 256 (ASCII and Latin-1), a \<^typ>\<open>char\<close> standing for the
  code point of the same number, together with U+03D2 (Greek upsilon with hook symbol), a
  letter that Python counts as uppercase and that has no lowercase form.
\<close>

datatype pychar = Latin1 char | Upsilon_hook

type_synonym label = "pychar list"

text \<open>A label written with ASCII and Latin-1 characters.\<close>

definition lab :: "string \<Rightarrow> label" where
  "lab s = map Latin1 s"

text \<open>
  A data frame has its column labels, in order, and its rows, in order; a row lists its
  cells in the order of the labels. A series (one column) is the list of its cells.
\<close>

record dataframe =
  columns :: "label list"
  rows :: "cell list list"

type_synonym series = "cell list"

text \<open>
  The exceptions of a run: a label that a frame does not have, a sheet that
  \<^verbatim>\<open>pd.read_excel\<close> cannot read, the \<^verbatim>\<open>.str\<close> accessor refused by an index without
  labels, and the two ways in which \<^verbatim>\<open>st.dataframe\<close> refuses a frame.
\<close>

datatype error =
    KeyError label
  | ReadError string
  | AttributeError
  | Duplicate_columns
  | OverflowError

text \<open>
  A frame is well formed when its labels are distinct and every row has one cell per label.
  With a repeated label \<^verbatim>\<open>df[c]\<close> is a frame rather than a series in pandas, a case the
  model does not cover; the theorems about the filter therefore assume well-formed frames.
\<close>

definition wf_frame :: "dataframe \<Rightarrow> bool" where
  "wf_frame df \<longleftrightarrow>
     distinct (columns df) \<and> (\<forall>r \<in> set (rows df). length r = length (columns df))"

text \<open>\<^verbatim>\<open>Index.get_loc\<close>: the position of a label among the column labels.\<close>

fun get_loc :: "label \<Rightarrow> label list \<Rightarrow> nat option" where
  "get_loc c [] = None"
| "get_loc c (x # xs) = (if x = c then Some 0 else map_option Suc (get_loc c xs))"

text \<open>The cell of a row at a position; a row that is too short reads as empty there.\<close>

definition cell_at :: "cell list \<Rightarrow> nat \<Rightarrow> cell" where
  "cell_at r i = (if i < length r then r ! i else NaN)"

text \<open>\<^verbatim>\<open>df[c]\<close>: the column under label \<open>c\<close>, a \<^verbatim>\<open>KeyError\<close> when there is no such label.\<close>

definition getitem :: "dataframe \<Rightarrow> label \<Rightarrow> error + series" where
  "getitem df c =
     (case get_loc c (columns df) of
        None \<Rightarrow> Inl (KeyError c)
      | Some i \<Rightarrow> Inr (map (\<lambda>r. cell_at r i) (rows df)))"

text \<open>\<^verbatim>\<open>row[c]\<close>: the value a row of the frame holds under label \<open>c\<close>.\<close>

definition row_value :: "dataframe \<Rightarrow> label \<Rightarrow> cell list \<Rightarrow> cell" where
  "row_value df c r = (case get_loc c (columns df) of None \<Rightarrow> NaN | Some i \<Rightarrow> cell_at r i)"

text \<open>\<^verbatim>\<open>s.isin(values)\<close>: for each element of \<open>s\<close>, whether it occurs among \<open>values\<close>.\<close>

definition isin :: "series \<Rightarrow> series \<Rightarrow> bool list" where
  "isin s vals = map (\<lambda>v. v \<in> set vals) s"

text \<open>\<^verbatim>\<open>~mask\<close>: the element-wise negation of a boolean series.\<close>

definition invert :: "bool list \<Rightarrow> bool list" where
  "invert m = map Not m"

text \<open>\<^verbatim>\<open>df[mask]\<close>: the rows of the frame at the positions where the mask holds.\<close>

definition getitem_mask :: "dataframe \<Rightarrow> bool list \<Rightarrow> dataframe" where
  "getitem_mask df m = df\<lparr>rows := map fst (filter snd (zip (rows df) m))\<rparr>"

text \<open>
  The filter of both applications:
  \<^verbatim>\<open>bbq_df[~bbq_df[bbq_col].isin(hrt_df[hrt_col])]\<close>
  (\<^verbatim>\<open>streamlit_app.py\<close> uses the same label for both frames).
\<close>

definition non_hrt_attendees ::
  "dataframe \<Rightarrow> label \<Rightarrow> dataframe \<Rightarrow> label \<Rightarrow> error + dataframe" where
  "non_hrt_attendees hrt_df hrt_col bbq_df bbq_col =
     (case getitem bbq_df bbq_col of
        Inl e \<Rightarrow> Inl e
      | Inr b \<Rightarrow>
          (case getitem hrt_df hrt_col of
             Inl e \<Rightarrow> Inl e
           | Inr h \<Rightarrow> Inr (getitem_mask bbq_df (invert (isin b h)))))"

text \<open>
  The complement, computed by \<^verbatim>\<open>testing_area_app.py\<close> for its summary:
  \<^verbatim>\<open>bbq_df[bbq_df[bbq_col].isin(hrt_df[hrt_col])]\<close>.
\<close>

definition hrt_at_bbq ::
  "dataframe \<Rightarrow> label \<Rightarrow> dataframe \<Rightarrow> label \<Rightarrow> error + dataframe" where
  "hrt_at_bbq hrt_df hrt_col bbq_df bbq_col =
     (case getitem bbq_df bbq_col of
        Inl e \<Rightarrow> Inl e
      | Inr b \<Rightarrow>
          (case getitem hrt_df hrt_col of
             Inl e \<Rightarrow> Inl e
           | Inr h \<Rightarrow> Inr (getitem_mask bbq_df (isin b h))))"

section \<open>Loading a sheet\<close>

text \<open>
  On the code points below 256, \<^verbatim>\<open>str.isspace\<close> holds of tab to carriage return, the
  separators 28 to 31, the space, NEL and the no-break space; \<^verbatim>\<open>str.isupper\<close> holds of
  the capital letters (A to Z, and the Latin-1 capitals 192 to 222 but for the
  multiplication sign 215), and \<^verbatim>\<open>str.lower\<close> moves these up by 32. U+03D2 is no white
  space, is uppercase, and \<^verbatim>\<open>str.lower\<close> leaves it as it is.
\<close>

definition latin1_space :: "nat \<Rightarrow> bool" where
  "latin1_space n \<longleftrightarrow> (9 \<le> n \<and> n \<le> 13) \<or> (28 \<le> n \<and> n \<le> 32) \<or> n = 133 \<or> n = 160"

definition latin1_upper :: "nat \<Rightarrow> bool" where
  "latin1_upper n \<longleftrightarrow> (65 \<le> n \<and> n \<le> 90) \<or> (192 \<le> n \<and> n \<le> 222 \<and> n \<noteq> 215)"

fun is_space :: "pychar \<Rightarrow> bool" where
  "is_space (Latin1 c) = latin1_space (of_char c)"
| "is_space Upsilon_hook = False"

fun is_upper :: "pychar \<Rightarrow> bool" where
  "is_upper (Latin1 c) = latin1_upper (of_char c)"
| "is_upper Upsilon_hook = True"

fun lower_char :: "pychar \<Rightarrow> pychar" where
  "lower_char (Latin1 c) =
     (if latin1_upper (of_char c) then Latin1 (char_of (of_char c + (32::nat))) else Latin1 c)"
| "lower_char Upsilon_hook = Upsilon_hook"

text \<open>\<^verbatim>\<open>s.strip()\<close>: drop the white space at both ends.\<close>

definition strip :: "label \<Rightarrow> label" where
  "strip s = rev (dropWhile is_space (rev (dropWhile is_space s)))"

text \<open>\<^verbatim>\<open>s.lower()\<close>.\<close>

definition lower :: "label \<Rightarrow> label" where
  "lower s = map lower_char s"

text \<open>The cleaning of one label in \<^verbatim>\<open>load_excel_file\<close>: \<^verbatim>\<open>.str.strip().str.lower()\<close>.\<close>

definition normalize_name :: "label \<Rightarrow> label" where
  "normalize_name s = lower (strip s)"

text \<open>
  What the applications report. Each constructor stands for one call that writes to the
  page, with the values the call formats into its text; static help and headings are
  left out.
\<close>

datatype message =
    Error_loading error  \<comment> \<open>\<^verbatim>\<open>st.error\<close>: the sheet could not be loaded\<close>
  | Loaded nat string  \<comment> \<open>\<^verbatim>\<open>st.success\<close>: number of rows loaded, and of what\<close>
  | Column_not_found label string  \<comment> \<open>\<^verbatim>\<open>st.error\<close>: the missing label, the table\<close>
  | Available_columns "label list"  \<comment> \<open>\<^verbatim>\<open>st.write\<close>: the labels the table has\<close>
  | Cannot_process  \<comment> \<open>the box "Cannot Process"\<close>
  | Selection_required  \<comment> \<open>the box "Column Selection Required"\<close>
  | Sample_values "cell list"  \<comment> \<open>\<^verbatim>\<open>st.write\<close>: up to three values of the chosen column\<close>
  | Comparison_setup label label  \<comment> \<open>the box "Comparison Setup"\<close>
  | Type_mismatch string string  \<comment> \<open>\<^verbatim>\<open>st.warning\<close>: "Data Type Mismatch"\<close>
  | Types_match string  \<comment> \<open>\<^verbatim>\<open>st.success\<close>: "Data Types Match"\<close>
  | Results nat nat nat nat
      \<comment> \<open>attendees, majors, majors at the event, attendees that are no majors\<close>
  | Majors_at_bbq "cell list"  \<comment> \<open>\<^verbatim>\<open>st.write\<close>: names or keys of the majors who attended\<close>
  | All_are_majors  \<comment> \<open>\<^verbatim>\<open>st.info\<close>: nothing left after the filter\<close>
  | Error_processing error  \<comment> \<open>\<^verbatim>\<open>st.error\<close>: the processing block raised\<close>

text \<open>The messages written with \<^verbatim>\<open>st.error\<close>.\<close>

fun is_error :: "message \<Rightarrow> bool" where
  "is_error (Error_loading e) = True"
| "is_error (Column_not_found c t) = True"
| "is_error (Error_processing e) = True"
| "is_error m = False"

text \<open>
  \<^verbatim>\<open>load_excel_file\<close>. Its argument is what \<^verbatim>\<open>pd.read_excel\<close> made of the uploaded
  sheet: an exception, or the frame with the labels as they stand in the sheet; the labels
  of a sheet are taken to be strings. The cleaning of the labels is inside the \<^verbatim>\<open>try\<close>
  block too: on a sheet without labels the \<^verbatim>\<open>.str\<close> accessor raises, and the loader
  reports the error and returns nothing. Otherwise the loader cleans the labels and leaves
  the cells alone. (The variant in \<^verbatim>\<open>testing_area_app.py\<close> words its error messages
  differently.)
\<close>

definition load_excel_file :: "error + dataframe \<Rightarrow> dataframe option \<times> message list" where
  "load_excel_file parsed =
     (case parsed of
        Inl e \<Rightarrow> (None, [Error_loading e])
      | Inr df \<Rightarrow>
          if columns df = [] then (None, [Error_loading AttributeError])
          else (Some (df\<lparr>columns := map normalize_name (columns df)\<rparr>), []))"

text \<open>\<^verbatim>\<open>validate_dataframe\<close>: the verdict and what it writes.\<close>

definition validate_dataframe ::
  "dataframe option \<Rightarrow> string \<Rightarrow> label \<Rightarrow> bool \<times> message list" where
  "validate_dataframe df file_name required_column =
     (case df of
        None \<Rightarrow> (False, [])
      | Some d \<Rightarrow>
          if required_column \<notin> set (columns d)
          then (False, [Column_not_found required_column file_name,
                        Available_columns (columns d)])
          else (True, []))"

section \<open>Showing a frame\<close>

text \<open>
  \<^verbatim>\<open>st.dataframe(df)\<close> draws a frame, or raises: it refuses a frame with a repeated
  label, and a frame holding an integer that does not fit 64 bits. \<open>None\<close> stands for a
  frame that was drawn, \<open>Some e\<close> for the exception.
\<close>

definition fits_64_bits :: "int \<Rightarrow> bool" where
  "fits_64_bits n \<longleftrightarrow> - 9223372036854775808 \<le> n \<and> n < 18446744073709551616"

definition overflows :: "cell \<Rightarrow> bool" where
  "overflows c = (case c of Num n \<Rightarrow> \<not> fits_64_bits n | _ \<Rightarrow> False)"

definition st_dataframe :: "dataframe \<Rightarrow> error option" where
  "st_dataframe df =
     (if \<not> distinct (columns df) then Some Duplicate_columns
      else if \<exists>r \<in> set (rows df). \<exists>c \<in> set r. overflows c then Some OverflowError
      else None)"

text \<open>\<^verbatim>\<open>df.head()\<close>: the first five rows.\<close>

definition head :: "dataframe \<Rightarrow> dataframe" where
  "head df = df\<lparr>rows := take 5 (rows df)\<rparr>"

section \<open>The application \<^verbatim>\<open>streamlit_app.py\<close>\<close>

text \<open>
  One upload column of \<^verbatim>\<open>main\<close>: nothing without a file; otherwise the loader runs,
  and a loaded frame is announced and its first rows are previewed with
  \<^verbatim>\<open>st.dataframe\<close>. The preview stands outside any \<^verbatim>\<open>try\<close> block: when it raises, the
  run ends with that exception.
\<close>

definition upload ::
  "string \<Rightarrow> (error + dataframe) option \<Rightarrow> error + dataframe option \<times> message list" where
  "upload what file =
     (case file of
        None \<Rightarrow> Inr (None, [])
      | Some parsed \<Rightarrow>
          (case load_excel_file parsed of
             (None, ms) \<Rightarrow> Inr (None, ms)
           | (Some df, ms) \<Rightarrow>
               (case st_dataframe (head df) of
                  Some e \<Rightarrow> Inl e
                | None \<Rightarrow> Inr (Some df, ms @ [Loaded (length (rows df)) what]))))"

text \<open>
  The end of the processing block, inside its \<^verbatim>\<open>try\<close>: a filtered frame that has rows
  is shown with \<^verbatim>\<open>st.dataframe\<close> and offered for download; when showing it raises, the
  handler writes the error and nothing is offered.
\<close>

definition offer :: "dataframe \<Rightarrow> message list \<times> dataframe option" where
  "offer non =
     (if length (rows non) > 0 then
        (case st_dataframe non of
           Some e \<Rightarrow> ([Error_processing e], None)
         | None \<Rightarrow> ([], Some non))
      else ([All_are_majors], None))"

definition summary :: "dataframe \<Rightarrow> dataframe \<Rightarrow> dataframe \<Rightarrow> message" where
  "summary hrt_df bbq_df non =
     Results (length (rows bbq_df)) (length (rows hrt_df))
       (length (rows bbq_df) - length (rows non)) (length (rows non))"

text \<open>
  The section "Process Data" of \<^verbatim>\<open>main\<close>, entered when both frames are loaded. Both
  validations run; the filter runs when both succeed and the button is pressed. The
  second component is the frame shown and offered for download.
\<close>

definition process_data ::
  "dataframe \<Rightarrow> dataframe \<Rightarrow> label \<Rightarrow> bool \<Rightarrow> message list \<times> dataframe option" where
  "process_data hrt_df bbq_df comparison_column button =
     (let (hrt_valid, m1) = validate_dataframe (Some hrt_df) ''HRT Majors'' comparison_column;
          (bbq_valid, m2) = validate_dataframe (Some bbq_df) ''BBQ Attendees'' comparison_column
      in if hrt_valid \<and> bbq_valid then
           (if button then
              (case non_hrt_attendees hrt_df comparison_column bbq_df comparison_column of
                 Inl e \<Rightarrow> (m1 @ m2 @ [Error_processing e], None)
               | Inr non \<Rightarrow>
                   (let (m3, shown) = offer non
                    in (m1 @ m2 @ [summary hrt_df bbq_df non] @ m3, shown)))
            else (m1 @ m2, None))
         else (m1 @ m2 @ [Cannot_process], None))"

text \<open>
  \<^verbatim>\<open>main\<close>: the majors' upload column, the attendees' upload column, then the
  processing section when both frames are there. \<open>Inl e\<close> is a run ended by the uncaught
  exception \<open>e\<close>.
\<close>

definition main_app ::
  "(error + dataframe) option \<Rightarrow> (error + dataframe) option \<Rightarrow> label \<Rightarrow> bool
     \<Rightarrow> error + message list \<times> dataframe option" where
  "main_app hrt_file bbq_file comparison_column button =
     (case upload ''HRT majors'' hrt_file of
        Inl e \<Rightarrow> Inl e
      | Inr (hrt_df, m1) \<Rightarrow>
          (case upload ''BBQ attendees'' bbq_file of
             Inl e \<Rightarrow> Inl e
           | Inr (bbq_df, m2) \<Rightarrow>
               (case (hrt_df, bbq_df) of
                  (Some h, Some b) \<Rightarrow>
                    (let (m3, shown) = process_data h b comparison_column button
                     in Inr (m1 @ m2 @ m3, shown))
                | _ \<Rightarrow> Inr (m1 @ m2, None))))"

section \<open>The application \<^verbatim>\<open>pages/testing_area_app.py\<close>\<close>

text \<open>
  Here the key labels are chosen per frame from select boxes; \<open>None\<close> is the value of an
  empty select box. Python's truth test on a choice fails for \<open>None\<close> and for the empty
  string.
\<close>

text \<open>\<^verbatim>\<open>s.dropna()\<close>.\<close>

definition dropna :: "series \<Rightarrow> series" where
  "dropna s = filter (\<lambda>v. v \<noteq> NaN) s"

text \<open>\<^verbatim>\<open>s.dropna().iloc[0] if not s.dropna().empty else None\<close>.\<close>

definition first_valid :: "series \<Rightarrow> cell option" where
  "first_valid s = (case dropna s of [] \<Rightarrow> None | v # _ \<Rightarrow> Some v)"

text \<open>
  The type of a sampled value follows the dtype pandas gave its column. A column with a
  string keeps Python objects, and so does a column with an integer beyond 64 bits or
  with integers of both signs that do not all fit \<^verbatim>\<open>int64\<close>; a column of numbers that
  fit \<^verbatim>\<open>int64\<close> is \<^verbatim>\<open>int64\<close>, and \<^verbatim>\<open>float64\<close> once it has an empty cell; a column of
  non-negative numbers that fit 64 bits is \<^verbatim>\<open>uint64\<close>, or \<^verbatim>\<open>float64\<close> with an empty
  cell. A column without cells keeps objects.
\<close>

datatype dtype = Int64 | UInt64 | Float64 | Object

definition is_str :: "cell \<Rightarrow> bool" where
  "is_str c = (case c of Str s \<Rightarrow> True | _ \<Rightarrow> False)"

definition numbers :: "series \<Rightarrow> int list" where
  "numbers s = concat (map (\<lambda>c. case c of Num n \<Rightarrow> [n] | _ \<Rightarrow> []) s)"

definition fits_int64 :: "int \<Rightarrow> bool" where
  "fits_int64 n \<longleftrightarrow> - 9223372036854775808 \<le> n \<and> n < 9223372036854775808"

definition fits_uint64 :: "int \<Rightarrow> bool" where
  "fits_uint64 n \<longleftrightarrow> 0 \<le> n \<and> n < 18446744073709551616"

definition dtype_of :: "series \<Rightarrow> dtype" where
  "dtype_of s =
     (if s = [] \<or> list_ex is_str s then Object
      else if list_all fits_int64 (numbers s) then (if NaN \<in> set s then Float64 else Int64)
      else if list_all fits_uint64 (numbers s) then (if NaN \<in> set s then Float64 else UInt64)
      else Object)"

text \<open>\<^verbatim>\<open>type(v).__name__\<close> for a value \<open>v\<close> taken from a column of the given dtype.\<close>

fun type_name :: "dtype \<Rightarrow> cell \<Rightarrow> string" where
  "type_name dt (Str s) = ''str''"
| "type_name Int64 (Num n) = ''int64''"
| "type_name UInt64 (Num n) = ''uint64''"
| "type_name Float64 (Num n) = ''float64''"
| "type_name Object (Num n) = ''int''"
| "type_name Object NaN = ''float''"
| "type_name dt NaN = ''float64''"

text \<open>The sample line under a select box: \<^verbatim>\<open>df[col].dropna().head(3).tolist()\<close>.\<close>

definition show_samples :: "dataframe \<Rightarrow> label option \<Rightarrow> error + message list" where
  "show_samples df sel =
     (case sel of
        None \<Rightarrow> Inr []
      | Some c \<Rightarrow>
          if c = [] then Inr []
          else (case getitem df c of
                  Inl e \<Rightarrow> Inl e
                | Inr s \<Rightarrow> Inr [Sample_values (take 3 (dropna s))]))"

text \<open>
  The block "Data type validation": the first non-empty value of each key column is
  sampled, and the names of their types are compared.
\<close>

definition data_type_validation ::
  "dataframe \<Rightarrow> label \<Rightarrow> dataframe \<Rightarrow> label \<Rightarrow> error + message list" where
  "data_type_validation hrt_df hrt_col bbq_df bbq_col =
     (case getitem hrt_df hrt_col of
        Inl e \<Rightarrow> Inl e
      | Inr hs \<Rightarrow>
          (case getitem bbq_df bbq_col of
             Inl e \<Rightarrow> Inl e
           | Inr bs \<Rightarrow>
               Inr (case (first_valid hs, first_valid bs) of
                      (Some hrt_sample, Some bbq_sample) \<Rightarrow>
                        (let hrt_type = type_name (dtype_of hs) hrt_sample;
                             bbq_type = type_name (dtype_of bs) bbq_sample
                         in if hrt_type \<noteq> bbq_type then [Type_mismatch hrt_type bbq_type]
                            else [Types_match hrt_type])
                    | _ \<Rightarrow> [])))"

text \<open>The section "Column Selection for Comparison".\<close>

definition column_selection ::
  "dataframe \<Rightarrow> dataframe \<Rightarrow> label option \<Rightarrow> label option \<Rightarrow> error + message list" where
  "column_selection hrt_df bbq_df hrt_sel bbq_sel =
     (case show_samples hrt_df hrt_sel of
        Inl e \<Rightarrow> Inl e
      | Inr m1 \<Rightarrow>
          (case show_samples bbq_df bbq_sel of
             Inl e \<Rightarrow> Inl e
           | Inr m2 \<Rightarrow>
               (case (hrt_sel, bbq_sel) of
                  (Some hrt_col, Some bbq_col) \<Rightarrow>
                    if hrt_col \<noteq> [] \<and> bbq_col \<noteq> [] then
                      (case data_type_validation hrt_df hrt_col bbq_df bbq_col of
                         Inl e \<Rightarrow> Inl e
                       | Inr m3 \<Rightarrow> Inr (m1 @ m2 @ [Comparison_setup hrt_col bbq_col] @ m3))
                    else Inr (m1 @ m2)
                | _ \<Rightarrow> Inr (m1 @ m2))))"

text \<open>
  The line about the majors who attended: their names when the attendee frame has a
  label containing \<^verbatim>\<open>name\<close>, their keys otherwise.
\<close>

definition name_col :: "label list \<Rightarrow> label option" where
  "name_col cols = find (\<lambda>col. sublist (lab ''name'') (lower col)) cols"

definition majors_line :: "dataframe \<Rightarrow> label \<Rightarrow> dataframe \<Rightarrow> error + message list" where
  "majors_line bbq_df bbq_col at_bbq =
     (if length (rows at_bbq) > 0 then
        (case getitem at_bbq (case name_col (columns bbq_df) of Some c \<Rightarrow> c | None \<Rightarrow> bbq_col) of
           Inl e \<Rightarrow> Inl e
         | Inr s \<Rightarrow> Inr [Majors_at_bbq s])
      else Inr [])"

text \<open>
  The body of the \<^verbatim>\<open>try\<close> block: what was written before an exception stays on the page,
  followed by the error message of the handler.
\<close>

definition filter_and_report ::
  "dataframe \<Rightarrow> label \<Rightarrow> dataframe \<Rightarrow> label \<Rightarrow> message list \<times> dataframe option" where
  "filter_and_report hrt_df hrt_col bbq_df bbq_col =
     (case non_hrt_attendees hrt_df hrt_col bbq_df bbq_col of
        Inl e \<Rightarrow> ([Error_processing e], None)
      | Inr non \<Rightarrow>
          (case hrt_at_bbq hrt_df hrt_col bbq_df bbq_col of
             Inl e \<Rightarrow> ([summary hrt_df bbq_df non, Error_processing e], None)
           | Inr at_bbq \<Rightarrow>
               (case majors_line bbq_df bbq_col at_bbq of
                  Inl e \<Rightarrow> ([summary hrt_df bbq_df non, Error_processing e], None)
                | Inr m \<Rightarrow>
                    (let (m3, shown) = offer non
                     in ([summary hrt_df bbq_df non] @ m @ m3, shown)))))"

text \<open>The section "Process Data" of the testing application.\<close>

definition process_selected ::
  "dataframe \<Rightarrow> dataframe \<Rightarrow> label option \<Rightarrow> label option \<Rightarrow> bool
     \<Rightarrow> message list \<times> dataframe option" where
  "process_selected hrt_df bbq_df hrt_sel bbq_sel button =
     (case (hrt_sel, bbq_sel) of
        (Some hrt_col, Some bbq_col) \<Rightarrow>
          if hrt_col \<noteq> [] \<and> bbq_col \<noteq> [] then
            (let hrt_valid = hrt_col \<in> set (columns hrt_df);
                 bbq_valid = bbq_col \<in> set (columns bbq_df);
                 m1 = (if \<not> hrt_valid then [Column_not_found hrt_col ''HRT Majors''] else [])
                    @ (if \<not> bbq_valid then [Column_not_found bbq_col ''BBQ Attendees''] else [])
             in if hrt_valid \<and> bbq_valid then
                  (if button then
                     (let (m2, shown) = filter_and_report hrt_df hrt_col bbq_df bbq_col
                      in (m1 @ m2, shown))
                   else (m1, None))
                else (m1 @ [Cannot_process], None))
          else ([Selection_required], None)
      | _ \<Rightarrow> ([Selection_required], None))"

text \<open>
  Both sections, entered when both frames are loaded. A \<^verbatim>\<open>KeyError\<close> in the selection
  section is not caught and ends the run.
\<close>

definition select_and_process ::
  "dataframe \<Rightarrow> dataframe \<Rightarrow> label option \<Rightarrow> label option \<Rightarrow> bool
     \<Rightarrow> error + message list \<times> dataframe option" where
  "select_and_process hrt_df bbq_df hrt_sel bbq_sel button =
     (case column_selection hrt_df bbq_df hrt_sel bbq_sel of
        Inl e \<Rightarrow> Inl e
      | Inr m1 \<Rightarrow>
          (let (m2, shown) = process_selected hrt_df bbq_df hrt_sel bbq_sel button
           in Inr (m1 @ m2, shown)))"

definition main_testing ::
  "(error + dataframe) option \<Rightarrow> (error + dataframe) option
     \<Rightarrow> label option \<Rightarrow> label option \<Rightarrow> bool
     \<Rightarrow> error + message list \<times> dataframe option" where
  "main_testing hrt_file bbq_file hrt_sel bbq_sel button =
     (case upload ''HRT majors'' hrt_file of
        Inl e \<Rightarrow> Inl e
      | Inr (hrt_df, m1) \<Rightarrow>
          (case upload ''BBQ attendees'' bbq_file of
             Inl e \<Rightarrow> Inl e
           | Inr (bbq_df, m2) \<Rightarrow>
               (case (hrt_df, bbq_df) of
                  (Some h, Some b) \<Rightarrow>
                    (case select_and_process h b hrt_sel bbq_sel button of
                       Inl e \<Rightarrow> Inl e
                     | Inr (m3, shown) \<Rightarrow> Inr (m1 @ m2 @ m3, shown))
                | _ \<Rightarrow> Inr (m1 @ m2, None))))"

text \<open>
  The numbers of a frame are exact when each is a whole number that \<^verbatim>\<open>float64\<close> holds
  without rounding (at most 9007199254740992, the 53rd power of 2, in absolute value), so
  that it means the same number in a column with and in a column without empty cells.
\<close>

definition exact_cell :: "cell \<Rightarrow> bool" where
  "exact_cell c = (case c of Num n \<Rightarrow> \<bar>n\<bar> \<le> 9007199254740992 | _ \<Rightarrow> True)"

definition exact_numbers :: "dataframe \<Rightarrow> bool" where
  "exact_numbers df \<longleftrightarrow> (\<forall>r \<in> set (rows df). \<forall>c \<in> set r. exact_cell c)"

section \<open>Example sheets\<close>

definition id_label :: label where
  "id_label = lab ''id''"

definition name_label :: label where
  "name_label = lab ''name''"

definition majors_ex :: dataframe where
  "majors_ex = \<lparr>columns = [id_label], rows = [[Num 1], [Num 2]]\<rparr>"

definition attendees_ex :: dataframe where
  "attendees_ex =
     \<lparr>columns = [id_label, name_label], rows = [[Num 1, Str ''X''], [Num 3, Str ''Y'']]\<rparr>"

definition majors_none :: dataframe where
  "majors_none = \<lparr>columns = [id_label], rows = []\<rparr>"

definition attendees_one :: dataframe where
  "attendees_one = \<lparr>columns = [id_label, name_label], rows = [[Num 5, Str ''Z'']]\<rparr>"

definition majors_blank :: dataframe where
  "majors_blank = \<lparr>columns = [id_label], rows = [[NaN], [Num 2]]\<rparr>"

definition attendees_blank :: dataframe where
  "attendees_blank =
     \<lparr>columns = [id_label, name_label], rows = [[NaN, Str ''X''], [Num 3, Str ''Y'']]\<rparr>"

definition majors_dup :: dataframe where
  "majors_dup = \<lparr>columns = [id_label], rows = [[Num 1], [Num 2], [Num 1]]\<rparr>"

definition attendees_dup :: dataframe where
  "attendees_dup =
     \<lparr>columns = [id_label, name_label],
      rows = [[Num 3, Str ''Y''], [Num 1, Str ''X''], [Num 3, Str ''Y'']]\<rparr>"

definition sheet_majors :: dataframe where
  "sheet_majors = \<lparr>columns = [lab '' Bronco ID'', lab ''Name''], rows = [[Num 7, Str ''Z'']]\<rparr>"

definition sheet_attendees :: dataframe where
  "sheet_attendees = \<lparr>columns = [lab ''Student''], rows = [[Num 7]]\<rparr>"

definition majors_num :: dataframe where
  "majors_num = \<lparr>columns = [id_label], rows = [[Num 123], [Num 5]]\<rparr>"

definition attendees_str :: dataframe where
  "attendees_str =
     \<lparr>columns = [lab ''sid'', name_label], rows = [[Str ''abc'', Str ''W''], [Str ''123'', Str ''V'']]\<rparr>"

definition majors_float :: dataframe where
  "majors_float = \<lparr>columns = [id_label], rows = [[Num 2], [NaN]]\<rparr>"

definition attendees_int :: dataframe where
  "attendees_int =
     \<lparr>columns = [lab ''sid'', name_label], rows = [[Num 2, Str ''U''], [Num 3, Str ''T'']]\<rparr>"

definition hook_header :: label where
  "hook_header = Upsilon_hook # lab '' ID''"

definition hook_request :: label where
  "hook_request = Upsilon_hook # lab '' id''"

definition sheet_hook :: dataframe where
  "sheet_hook = \<lparr>columns = [hook_header], rows = [[Num 7]]\<rparr>"

lemmas ex_defs =
  majors_ex_def attendees_ex_def majors_none_def attendees_one_def majors_blank_def attendees_blank_def
  majors_dup_def attendees_dup_def majors_num_def attendees_str_def
  majors_float_def attendees_int_def id_label_def name_label_def lab_def
  wf_frame_def row_value_def cell_at_def

section \<open>Properties of the filter\<close>

lemma get_loc_Some: "c \<in> set cs \<Longrightarrow> \<exists>i. get_loc c cs = Some i \<and> i < length cs \<and> cs ! i = c"
  by (induction cs) auto

lemma get_loc_None: "c \<notin> set cs \<Longrightarrow> get_loc c cs = None"
  by (induction cs) auto

lemma getitem_present:
  "c \<in> set (columns df) \<Longrightarrow> getitem df c = Inr (map (row_value df c) (rows df))"
  using get_loc_Some [of c "columns df"] by (auto simp: getitem_def row_value_def)

lemma getitem_absent: "c \<notin> set (columns df) \<Longrightarrow> getitem df c = Inl (KeyError c)"
  by (simp add: getitem_def get_loc_None)

lemma mask_filter:
  "map fst (filter snd (zip xs (map p xs))) = filter p xs"
  by (induction xs) auto

lemma mask_isin:
  "getitem_mask df (isin (map f (rows df)) h) = df\<lparr>rows := filter (\<lambda>r. f r \<in> set h) (rows df)\<rparr>"
proof -
  have "isin (map f (rows df)) h = map (\<lambda>r. f r \<in> set h) (rows df)"
    by (simp add: isin_def)
  then show ?thesis
    by (simp add: getitem_mask_def mask_filter)
qed

lemma mask_not_isin:
  "getitem_mask df (invert (isin (map f (rows df)) h)) =
     df\<lparr>rows := filter (\<lambda>r. f r \<notin> set h) (rows df)\<rparr>"
proof -
  have "invert (isin (map f (rows df)) h) = map (\<lambda>r. f r \<notin> set h) (rows df)"
    by (simp add: isin_def invert_def)
  then show ?thesis
    by (simp add: getitem_mask_def mask_filter)
qed

lemma non_hrt_attendees_filter:
  assumes "hrt_col \<in> set (columns hrt_df)" and "bbq_col \<in> set (columns bbq_df)"
  shows "non_hrt_attendees hrt_df hrt_col bbq_df bbq_col =
           Inr (bbq_df\<lparr>rows := filter (\<lambda>r. row_value bbq_df bbq_col r
                    \<notin> row_value hrt_df hrt_col ` set (rows hrt_df)) (rows bbq_df)\<rparr>)"
  using assms by (simp add: non_hrt_attendees_def getitem_present mask_not_isin)

lemma hrt_at_bbq_filter:
  assumes "hrt_col \<in> set (columns hrt_df)" and "bbq_col \<in> set (columns bbq_df)"
  shows "hrt_at_bbq hrt_df hrt_col bbq_df bbq_col =
           Inr (bbq_df\<lparr>rows := filter (\<lambda>r. row_value bbq_df bbq_col r
                    \<in> row_value hrt_df hrt_col ` set (rows hrt_df)) (rows bbq_df)\<rparr>)"
  using assms by (simp add: hrt_at_bbq_def getitem_present mask_isin)

subsection \<open>The anti-join contract\<close>

text \<open>
  C1. For well-formed frames \<open>A\<close> (majors) and \<open>B\<close> (attendees) whose key labels \<open>ka\<close>
  and \<open>kb\<close> are present, the filter returns a frame whose rows are exactly the rows of
  \<open>B\<close>, in order, whose \<open>kb\<close>-value is not among the \<open>ka\<close>-values of \<open>A\<close>; every row of
  the result is a row of \<open>B\<close>, and no row of the result has a key occurring in \<open>A\<close>'s key
  column.
\<close>

theorem anti_join_contract:
  assumes "wf_frame A" and "wf_frame B"
    and "ka \<in> set (columns A)" and "kb \<in> set (columns B)"
  shows "\<exists>R. non_hrt_attendees A ka B kb = Inr R
           \<and> rows R = filter (\<lambda>r. row_value B kb r \<notin> row_value A ka ` set (rows A)) (rows B)
           \<and> set (rows R) \<subseteq> set (rows B)
           \<and> (\<forall>r \<in> set (rows R). row_value B kb r \<notin> row_value A ka ` set (rows A))"
  using assms(3,4) by (simp add: non_hrt_attendees_filter)

theorem anti_join_contract_witness:
  "wf_frame majors_ex \<and> wf_frame attendees_ex
     \<and> id_label \<in> set (columns majors_ex) \<and> id_label \<in> set (columns attendees_ex)
     \<and> non_hrt_attendees majors_ex id_label attendees_ex id_label
         = Inr \<lparr>columns = [id_label, name_label], rows = [[Num 3, Str ''Y'']]\<rparr>"
proof -
  have w: "wf_frame majors_ex" "wf_frame attendees_ex"
    by (simp_all add: ex_defs)
  have k: "id_label \<in> set (columns majors_ex)" "id_label \<in> set (columns attendees_ex)"
    by (simp_all add: ex_defs)
  from anti_join_contract [OF w k] obtain R where
    R: "non_hrt_attendees majors_ex id_label attendees_ex id_label = Inr R"
      "rows R = filter (\<lambda>r. row_value attendees_ex id_label r
                  \<notin> row_value majors_ex id_label ` set (rows majors_ex)) (rows attendees_ex)"
    by blast
  have "rows R = [[Num 3, Str ''Y'']]"
    using R(2) by (simp add: ex_defs)
  moreover have "columns R = [id_label, name_label]"
    using R(1) k by (simp add: non_hrt_attendees_filter) (auto simp: ex_defs)
  ultimately have "R = \<lparr>columns = [id_label, name_label], rows = [[Num 3, Str ''Y'']]\<rparr>"
    by simp
  with R(1) w k show ?thesis by simp
qed


subsection \<open>Partition of the attendees\<close>

lemma count_list_filter:
  "count_list (filter P xs) x = (if P x then count_list xs x else 0)"
  by (induction xs) auto

text \<open>
  C2. For well-formed frames and present key labels, the number of rows of the filter's
  result plus the number of rows of the complement (the attendee rows whose key is among
  the majors' keys, \<^verbatim>\<open>hrt_at_bbq\<close>) is the number of attendee rows. The count both
  applications print as "HRT Majors at BBQ", \<^verbatim>\<open>len(bbq_df) - len(non_hrt_attendees)\<close>,
  is the number of rows of that complement.
\<close>

theorem partition_count:
  assumes "wf_frame A" and "wf_frame B"
    and "ka \<in> set (columns A)" and "kb \<in> set (columns B)"
  shows "\<exists>R C. non_hrt_attendees A ka B kb = Inr R \<and> hrt_at_bbq A ka B kb = Inr C
           \<and> rows C = filter (\<lambda>r. row_value B kb r \<in> row_value A ka ` set (rows A)) (rows B)
           \<and> length (rows R) + length (rows C) = length (rows B)
           \<and> length (rows B) - length (rows R) = length (rows C)"
proof -
  let ?P = "\<lambda>r. row_value B kb r \<in> row_value A ka ` set (rows A)"
  have "length (filter ?P (rows B)) + length (filter (\<lambda>r. \<not> ?P r) (rows B)) = length (rows B)"
    by (rule sum_length_filter_compl)
  then show ?thesis
    using assms(3,4) by (simp add: non_hrt_attendees_filter hrt_at_bbq_filter)
qed

theorem partition_count_witness:
  "wf_frame majors_ex \<and> wf_frame attendees_ex
     \<and> id_label \<in> set (columns majors_ex) \<and> id_label \<in> set (columns attendees_ex)
     \<and> (\<exists>R C. non_hrt_attendees majors_ex id_label attendees_ex id_label = Inr R
           \<and> hrt_at_bbq majors_ex id_label attendees_ex id_label = Inr C
           \<and> rows C = [[Num 1, Str ''X'']]
           \<and> length (rows R) + length (rows C) = 2)"
proof -
  have w: "wf_frame majors_ex" "wf_frame attendees_ex"
    by (simp_all add: ex_defs)
  have k: "id_label \<in> set (columns majors_ex)" "id_label \<in> set (columns attendees_ex)"
    by (simp_all add: ex_defs)
  from partition_count [OF w k] obtain R C where
    RC: "non_hrt_attendees majors_ex id_label attendees_ex id_label = Inr R"
      "hrt_at_bbq majors_ex id_label attendees_ex id_label = Inr C"
      "rows C = filter (\<lambda>r. row_value attendees_ex id_label r
                  \<in> row_value majors_ex id_label ` set (rows majors_ex)) (rows attendees_ex)"
      "length (rows R) + length (rows C) = length (rows attendees_ex)"
    by blast
  have "rows C = [[Num 1, Str ''X'']]"
    using RC(3) by (simp add: ex_defs)
  moreover have "length (rows attendees_ex) = 2"
    by (simp add: ex_defs)
  ultimately show ?thesis
    using w k RC(1,2,4) by auto
qed

subsection \<open>Empty keys\<close>

text \<open>
  C4. Empty key values take part in the comparison as they are: for well-formed frames
  and present key labels, when some row of \<open>A\<close> has an empty key (\<^verbatim>\<open>NaN\<close>), every row of
  \<open>B\<close> whose key is empty matches it and is left out of the result.
\<close>

theorem empty_key_matches:
  assumes "wf_frame A" and "wf_frame B"
    and "ka \<in> set (columns A)" and "kb \<in> set (columns B)"
    and "a \<in> set (rows A)" and "row_value A ka a = NaN"
  shows "\<exists>R. non_hrt_attendees A ka B kb = Inr R
           \<and> (\<forall>r \<in> set (rows B). row_value B kb r = NaN \<longrightarrow> r \<notin> set (rows R))"
proof -
  have "NaN \<in> row_value A ka ` set (rows A)"
    using assms(5,6) by force
  then show ?thesis
    using assms(3,4) by (simp add: non_hrt_attendees_filter)
qed

theorem empty_key_matches_witness:
  "wf_frame majors_blank \<and> wf_frame attendees_blank
     \<and> id_label \<in> set (columns majors_blank) \<and> id_label \<in> set (columns attendees_blank)
     \<and> [NaN] \<in> set (rows majors_blank) \<and> row_value majors_blank id_label [NaN] = NaN
     \<and> [NaN, Str ''X''] \<in> set (rows attendees_blank)
     \<and> row_value attendees_blank id_label [NaN, Str ''X''] = NaN
     \<and> (\<exists>R. non_hrt_attendees majors_blank id_label attendees_blank id_label = Inr R
           \<and> [NaN, Str ''X''] \<notin> set (rows R))"
proof -
  have w: "wf_frame majors_blank" "wf_frame attendees_blank"
    by (simp_all add: ex_defs)
  have k: "id_label \<in> set (columns majors_blank)" "id_label \<in> set (columns attendees_blank)"
    by (simp_all add: ex_defs)
  have a: "[NaN] \<in> set (rows majors_blank)" "row_value majors_blank id_label [NaN] = NaN"
    by (simp_all add: ex_defs)
  have b: "[NaN, Str ''X''] \<in> set (rows attendees_blank)"
    "row_value attendees_blank id_label [NaN, Str ''X''] = NaN"
    by (simp_all add: ex_defs)
  from empty_key_matches [OF w k a] b have
    "\<exists>R. non_hrt_attendees majors_blank id_label attendees_blank id_label = Inr R
       \<and> [NaN, Str ''X''] \<notin> set (rows R)"
    by blast
  with w k a b show ?thesis by blast
qed

subsection \<open>No majors\<close>

text \<open>
  C6. For well-formed frames and present key labels, when the set of key values of \<open>A\<close>
  is empty (as it is when \<open>A\<close> has no rows), the result of the filter is \<open>B\<close> itself.
\<close>

theorem empty_majors_identity:
  assumes "wf_frame A" and "wf_frame B"
    and "ka \<in> set (columns A)" and "kb \<in> set (columns B)"
    and "row_value A ka ` set (rows A) = {}"
  shows "non_hrt_attendees A ka B kb = Inr B"
  using assms(3,4,5) by (simp add: non_hrt_attendees_filter)

theorem empty_majors_identity_witness:
  "wf_frame majors_none \<and> wf_frame attendees_one
     \<and> id_label \<in> set (columns majors_none) \<and> id_label \<in> set (columns attendees_one)
     \<and> row_value majors_none id_label ` set (rows majors_none) = {}
     \<and> non_hrt_attendees majors_none id_label attendees_one id_label = Inr attendees_one"
proof -
  have w: "wf_frame majors_none" "wf_frame attendees_one"
    by (simp_all add: ex_defs)
  have k: "id_label \<in> set (columns majors_none)" "id_label \<in> set (columns attendees_one)"
    by (simp_all add: ex_defs)
  have e: "row_value majors_none id_label ` set (rows majors_none) = {}"
    by (simp add: ex_defs)
  from empty_majors_identity [OF w k e] w k e show ?thesis by blast
qed

subsection \<open>Duplicates\<close>

text \<open>
  C7. Only the set of key values of the majors matters: for well-formed frames, two
  majors frames whose key columns hold the same set of values (such as \<open>A\<close> and \<open>A\<close>
  with repeated keys removed) give the same result. Repeated rows of \<open>B\<close> are tested one
  by one: a row whose key is not among the majors' keys occurs in the result as many
  times as it occurs in \<open>B\<close>.
\<close>

theorem duplicate_semantics:
  assumes "wf_frame A" and "wf_frame A'" and "wf_frame B"
    and "getitem A ka = Inr h" and "getitem A' ka' = Inr h'" and "set h' = set h"
    and "kb \<in> set (columns B)"
  shows "non_hrt_attendees A' ka' B kb = non_hrt_attendees A ka B kb
           \<and> (\<exists>R. non_hrt_attendees A ka B kb = Inr R
                 \<and> (\<forall>r. row_value B kb r \<notin> set h
                       \<longrightarrow> count_list (rows R) r = count_list (rows B) r))"
proof -
  have R: "non_hrt_attendees A ka B kb =
             Inr (B\<lparr>rows := filter (\<lambda>r. row_value B kb r \<notin> set h) (rows B)\<rparr>)"
    using assms(4,7) by (simp add: non_hrt_attendees_def getitem_present mask_not_isin)
  have R': "non_hrt_attendees A' ka' B kb =
             Inr (B\<lparr>rows := filter (\<lambda>r. row_value B kb r \<notin> set h') (rows B)\<rparr>)"
    using assms(5,7) by (simp add: non_hrt_attendees_def getitem_present mask_not_isin)
  show ?thesis
    using assms(6) by (simp add: R R' count_list_filter)
qed

theorem duplicate_semantics_witness:
  "wf_frame majors_dup \<and> wf_frame majors_ex \<and> wf_frame attendees_dup
     \<and> getitem majors_dup id_label = Inr [Num 1, Num 2, Num 1]
     \<and> getitem majors_ex id_label = Inr [Num 1, Num 2]
     \<and> id_label \<in> set (columns attendees_dup)
     \<and> non_hrt_attendees majors_ex id_label attendees_dup id_label
         = non_hrt_attendees majors_dup id_label attendees_dup id_label
     \<and> (\<exists>R. non_hrt_attendees majors_dup id_label attendees_dup id_label = Inr R
           \<and> count_list (rows R) [Num 3, Str ''Y''] = 2)"
proof -
  have w: "wf_frame majors_dup" "wf_frame majors_ex" "wf_frame attendees_dup"
    by (simp_all add: ex_defs)
  have g: "getitem majors_dup id_label = Inr [Num 1, Num 2, Num 1]"
    by (simp add: getitem_def ex_defs)
  have g': "getitem majors_ex id_label = Inr [Num 1, Num 2]"
    by (simp add: getitem_def ex_defs)
  have s: "set [Num 1, Num 2] = set [Num 1, Num 2, Num 1]"
    by auto
  have k: "id_label \<in> set (columns attendees_dup)"
    by (simp add: ex_defs)
  have c: "row_value attendees_dup id_label [Num 3, Str ''Y''] \<notin> set [Num 1, Num 2, Num 1]"
    "count_list (rows attendees_dup) [Num 3, Str ''Y''] = 2"
    by (simp_all add: ex_defs)
  from duplicate_semantics [OF w g g' s k] c have
    "non_hrt_attendees majors_ex id_label attendees_dup id_label
       = non_hrt_attendees majors_dup id_label attendees_dup id_label
     \<and> (\<exists>R. non_hrt_attendees majors_dup id_label attendees_dup id_label = Inr R
           \<and> count_list (rows R) [Num 3, Str ''Y''] = 2)"
    by metis
  with w g g' k show ?thesis by blast
qed

subsection \<open>Order, rows and columns\<close>

text \<open>
  C9. For well-formed frames and present key labels, the rows of the result are a
  subsequence of the rows of \<open>B\<close>: the kept rows are rows of \<open>B\<close>, unchanged and in the
  order they have in \<open>B\<close>; and the result has the column labels of \<open>B\<close>.
\<close>

theorem order_and_rows_preserved:
  assumes "wf_frame A" and "wf_frame B"
    and "ka \<in> set (columns A)" and "kb \<in> set (columns B)"
  shows "\<exists>R. non_hrt_attendees A ka B kb = Inr R
           \<and> subseq (rows R) (rows B) \<and> set (rows R) \<subseteq> set (rows B)
           \<and> columns R = columns B"
  using assms(3,4) by (simp add: non_hrt_attendees_filter)

theorem order_and_rows_preserved_witness:
  "wf_frame majors_ex \<and> wf_frame attendees_dup
     \<and> id_label \<in> set (columns majors_ex) \<and> id_label \<in> set (columns attendees_dup)
     \<and> (\<exists>R. non_hrt_attendees majors_ex id_label attendees_dup id_label = Inr R
           \<and> subseq (rows R) (rows attendees_dup) \<and> columns R = [id_label, name_label])"
proof -
  have w: "wf_frame majors_ex" "wf_frame attendees_dup"
    by (simp_all add: ex_defs)
  have k: "id_label \<in> set (columns majors_ex)" "id_label \<in> set (columns attendees_dup)"
    by (simp_all add: ex_defs)
  have c: "columns attendees_dup = [id_label, name_label]"
    by (simp add: ex_defs)
  from order_and_rows_preserved [OF w k] c have
    "\<exists>R. non_hrt_attendees majors_ex id_label attendees_dup id_label = Inr R
       \<and> subseq (rows R) (rows attendees_dup) \<and> columns R = [id_label, name_label]"
    by auto
  with w k show ?thesis by blast
qed


section \<open>Properties of the loader and of validation\<close>

lemma is_space_lower_char: "is_space (lower_char c) = is_space c"
  by (cases c) (auto simp: latin1_space_def latin1_upper_def)

lemma lower_char_idem: "lower_char (lower_char c) = lower_char c"
  by (cases c) (auto simp: latin1_upper_def)

lemma lower_idem: "lower (lower s) = lower s"
  by (simp add: lower_def lower_char_idem)

lemma strip_lower: "strip (lower s) = lower (strip s)"
proof -
  have sp: "is_space \<circ> lower_char = is_space"
    by (rule ext) (simp add: is_space_lower_char)
  show ?thesis
    by (simp add: strip_def lower_def dropWhile_map rev_map sp)
qed

lemma strip_prefix: "\<exists>zs. dropWhile is_space s = strip s @ zs"
proof -
  let ?t = "dropWhile is_space s"
  have "rev (rev ?t) = rev (takeWhile is_space (rev ?t) @ dropWhile is_space (rev ?t))"
    by (simp only: takeWhile_dropWhile_id)
  then have "?t = strip s @ rev (takeWhile is_space (rev ?t))"
    by (simp only: rev_append rev_rev_ident strip_def)
  then show ?thesis ..
qed

lemma strip_hd: "strip s \<noteq> [] \<Longrightarrow> \<not> is_space (hd (strip s))"
proof -
  assume ne: "strip s \<noteq> []"
  obtain zs where z: "dropWhile is_space s = strip s @ zs"
    using strip_prefix by blast
  then have "dropWhile is_space s \<noteq> []" using ne by simp
  then have "\<not> is_space (hd (dropWhile is_space s))"
    by (rule hd_dropWhile)
  then show ?thesis using z ne by simp
qed

lemma strip_last: "strip s \<noteq> [] \<Longrightarrow> \<not> is_space (last (strip s))"
proof -
  assume ne: "strip s \<noteq> []"
  let ?u = "dropWhile is_space (rev (dropWhile is_space s))"
  have u: "?u \<noteq> []" using ne by (simp add: strip_def)
  then have "\<not> is_space (hd ?u)" by (rule hd_dropWhile)
  moreover have "last (strip s) = hd ?u"
    using u by (simp add: strip_def last_rev)
  ultimately show ?thesis by simp
qed

lemma strip_idem: "strip (strip s) = strip s"
proof (cases "strip s = []")
  case True
  have "strip [] = []" by (simp add: strip_def)
  with True show ?thesis by simp
next
  case False
  have "dropWhile is_space (strip s) = strip s"
    using strip_hd [OF False] False by (cases "strip s") auto
  moreover have "dropWhile is_space (rev (strip s)) = rev (strip s)"
    using strip_last [OF False] False by (cases "rev (strip s)") (auto simp: last_rev hd_rev)
  ultimately show ?thesis
    by (simp add: strip_def [of "strip s"])
qed

text \<open>
  C8. The cleaning of a label (strip the white space at both ends, then lower the case)
  is idempotent: cleaning a cleaned label gives the same label.
\<close>

theorem normalize_idem: "normalize_name (normalize_name s) = normalize_name s"
  by (simp add: normalize_name_def strip_lower strip_idem lower_idem)

theorem normalize_idem_witness:
  "normalize_name (normalize_name (lab ''  Bronco ID '')) = lab ''bronco id''"
proof -
  have "normalize_name (lab ''  Bronco ID '') = lab ''bronco id''"
    by code_simp
  with normalize_idem [of "lab ''  Bronco ID ''"] show ?thesis
    by simp
qed

lemma normalize_lowered: "c \<in> set (normalize_name s) \<Longrightarrow> lower_char c = c"
  by (auto simp: normalize_name_def lower_def lower_char_idem)

lemma normalize_ends:
  assumes "normalize_name s \<noteq> []"
  shows "\<not> is_space (hd (normalize_name s)) \<and> \<not> is_space (last (normalize_name s))"
proof -
  have ne: "strip s \<noteq> []"
    using assms by (simp add: normalize_name_def lower_def)
  have "hd (normalize_name s) = lower_char (hd (strip s))"
    using ne by (simp add: normalize_name_def lower_def hd_map)
  moreover have "last (normalize_name s) = lower_char (last (strip s))"
    using ne by (simp add: normalize_name_def lower_def last_map)
  ultimately show ?thesis
    using strip_hd [OF ne] strip_last [OF ne] by (simp add: is_space_lower_char)
qed

lemma not_normalized:
  assumes "(\<exists>c \<in> set req. lower_char c \<noteq> c)
    \<or> (req \<noteq> [] \<and> (is_space (hd req) \<or> is_space (last req)))"
  shows "req \<noteq> normalize_name s"
  using assms normalize_lowered [of _ s] normalize_ends [of s] by metis

lemma load_excel_file_labelled:
  "columns raw \<noteq> [] \<Longrightarrow>
     load_excel_file (Inr raw) = (Some (raw\<lparr>columns := map normalize_name (columns raw)\<rparr>), [])"
  by (simp add: load_excel_file_def)

text \<open>
  C10, as the claim has it, fails: a requested label with an uppercase character can
  pass validation. The sheet's label, U+03D2 followed by " ID", is cleaned to U+03D2
  followed by " id", since the uppercase letter U+03D2 has no lowercase form; the
  requested label, U+03D2 followed by " id", holds that uppercase letter and is found.
\<close>

theorem validation_uppercase_counterexample:
  "columns sheet_hook = [hook_header]
   \<and> Upsilon_hook \<in> set hook_request \<and> is_upper Upsilon_hook
   \<and> fst (validate_dataframe (fst (load_excel_file (Inr sheet_hook))) ''HRT Majors''
            hook_request)"
proof -
  have "normalize_name hook_header = hook_request"
    unfolding hook_header_def hook_request_def by code_simp
  then show ?thesis
    by (simp add: validate_dataframe_def load_excel_file_def sheet_hook_def)
      (simp add: hook_request_def)
qed

text \<open>
  C10, amended. For a sheet that has labels, validation looks the requested label up, as
  it is, among the cleaned labels of the loaded frame: it succeeds exactly when the
  requested label is the cleaned form of some label of the sheet. So a requested label
  with a character that lowering changes (a capital letter that has a lowercase form),
  or with white space at either end, fails validation and is reported as not found,
  whatever the labels of the sheet are.
\<close>

theorem validation_exact_match:
  assumes "columns raw \<noteq> []"
  shows "fst (validate_dataframe (fst (load_excel_file (Inr raw))) file_name req)
     = (req \<in> normalize_name ` set (columns raw))
   \<and> ((\<exists>c \<in> set req. lower_char c \<noteq> c)
          \<or> (req \<noteq> [] \<and> (is_space (hd req) \<or> is_space (last req)))
        \<longrightarrow> \<not> fst (validate_dataframe (fst (load_excel_file (Inr raw))) file_name req)
          \<and> Column_not_found req file_name
              \<in> set (snd (validate_dataframe (fst (load_excel_file (Inr raw))) file_name req)))"
proof -
  note l = load_excel_file_labelled [OF assms]
  have v: "fst (validate_dataframe (fst (load_excel_file (Inr raw))) file_name req)
     = (req \<in> normalize_name ` set (columns raw))"
    by (simp add: validate_dataframe_def l)
  have "req \<notin> normalize_name ` set (columns raw)"
    if "(\<exists>c \<in> set req. lower_char c \<noteq> c)
      \<or> (req \<noteq> [] \<and> (is_space (hd req) \<or> is_space (last req)))"
    using not_normalized [OF that] by blast
  then show ?thesis
    using v by (auto simp: validate_dataframe_def l)
qed

theorem validation_exact_match_witness:
  "columns sheet_majors \<noteq> []
   \<and> lower_char (Latin1 CHR ''B'') \<noteq> Latin1 CHR ''B''
   \<and> Latin1 CHR ''B'' \<in> set (lab ''Bronco ID'')
   \<and> \<not> fst (validate_dataframe (fst (load_excel_file (Inr sheet_majors))) ''HRT Majors''
              (lab ''Bronco ID''))
   \<and> fst (validate_dataframe (fst (load_excel_file (Inr sheet_majors))) ''HRT Majors''
          (lab ''bronco id''))"
proof -
  have ne: "columns sheet_majors \<noteq> []"
    by (simp add: sheet_majors_def)
  have "lower_char (Latin1 CHR ''B'') = Latin1 CHR ''b''"
    by code_simp
  then have b: "lower_char (Latin1 CHR ''B'') \<noteq> Latin1 CHR ''B''"
    "Latin1 CHR ''B'' \<in> set (lab ''Bronco ID'')"
    by (simp_all add: lab_def)
  then have u: "\<exists>c \<in> set (lab ''Bronco ID''). lower_char c \<noteq> c"
    by blast
  have "normalize_name (lab '' Bronco ID'') = lab ''bronco id''"
    by code_simp
  then have n: "lab ''bronco id'' \<in> normalize_name ` set (columns sheet_majors)"
    by (simp add: sheet_majors_def)
  from validation_exact_match [OF ne, of "''HRT Majors''" "lab ''Bronco ID''"]
    validation_exact_match [OF ne, of "''HRT Majors''" "lab ''bronco id''"] u n ne b
  show ?thesis by blast
qed

section \<open>Properties of the applications\<close>

lemma upload_loaded:
  assumes "upload what (Some (Inr raw)) = Inr (Some df, ms)"
  shows "columns raw \<noteq> [] \<and> df = raw\<lparr>columns := map normalize_name (columns raw)\<rparr>
           \<and> st_dataframe (head df) = None \<and> ms = [Loaded (length (rows df)) what]"
  using assms
  by (auto simp: upload_def load_excel_file_def split: if_splits option.splits)

text \<open>
  C3. For every pair of sheets that \<^verbatim>\<open>streamlit_app.py\<close> has loaded (each sheet was read,
  has labels, and its preview was drawn), when the requested key label is missing from
  the cleaned labels of either loaded frame, the run reports the label as not found,
  naming each table that lacks it, refuses to process, and neither computes nor shows a
  result, whether or not the button is pressed.
\<close>

theorem missing_column_rejected:
  assumes "upload ''HRT majors'' (Some (Inr rawA)) = Inr (Some h, m1)"
    and "upload ''BBQ attendees'' (Some (Inr rawB)) = Inr (Some b, m2)"
    and "c \<notin> set (columns h) \<or> c \<notin> set (columns b)"
  shows "\<exists>ms. main_app (Some (Inr rawA)) (Some (Inr rawB)) c button = Inr (ms, None)
           \<and> columns h = map normalize_name (columns rawA)
           \<and> columns b = map normalize_name (columns rawB)
           \<and> (c \<notin> set (columns h) \<longrightarrow> Column_not_found c ''HRT Majors'' \<in> set ms)
           \<and> (c \<notin> set (columns b) \<longrightarrow> Column_not_found c ''BBQ Attendees'' \<in> set ms)
           \<and> Cannot_process \<in> set ms
           \<and> (\<forall>n1 n2 n3 n4. Results n1 n2 n3 n4 \<notin> set ms)"
proof -
  note a = upload_loaded [OF assms(1)] and b = upload_loaded [OF assms(2)]
  have m: "m1 = [Loaded (length (rows h)) ''HRT majors'']"
    "m2 = [Loaded (length (rows b)) ''BBQ attendees'']"
    using a b by simp_all
  have c: "columns h = map normalize_name (columns rawA)"
    "columns b = map normalize_name (columns rawB)"
    using a b by (metis dataframe.select_convs(1) dataframe.surjective dataframe.update_convs(1))+
  let ?e1 = "if c \<notin> set (columns h)
    then [Column_not_found c ''HRT Majors'', Available_columns (columns h)] else []"
  let ?e2 = "if c \<notin> set (columns b)
    then [Column_not_found c ''BBQ Attendees'', Available_columns (columns b)] else []"
  have p: "process_data h b c button = (?e1 @ ?e2 @ [Cannot_process], None)"
    using assms(3) by (auto simp: process_data_def validate_dataframe_def)
  have "main_app (Some (Inr rawA)) (Some (Inr rawB)) c button
      = Inr (m1 @ m2 @ ?e1 @ ?e2 @ [Cannot_process], None)"
    by (simp add: main_app_def assms(1,2) p)
  then show ?thesis
    using c m by auto
qed

theorem missing_column_rejected_witness:
  "upload ''HRT majors'' (Some (Inr sheet_majors))
     = Inr (Some \<lparr>columns = [lab ''bronco id'', name_label], rows = [[Num 7, Str ''Z'']]\<rparr>,
            [Loaded 1 ''HRT majors''])
   \<and> upload ''BBQ attendees'' (Some (Inr sheet_attendees))
     = Inr (Some \<lparr>columns = [lab ''student''], rows = [[Num 7]]\<rparr>,
            [Loaded 1 ''BBQ attendees''])
   \<and> (\<exists>ms. main_app (Some (Inr sheet_majors)) (Some (Inr sheet_attendees)) (lab ''bronco id'')
              True = Inr (ms, None)
          \<and> Column_not_found (lab ''bronco id'') ''BBQ Attendees'' \<in> set ms
          \<and> Cannot_process \<in> set ms)"
proof -
  have n: "normalize_name (lab '' Bronco ID'') = lab ''bronco id''"
    "normalize_name (lab ''Name'') = lab ''name''"
    "normalize_name (lab ''Student'') = lab ''student''"
    by code_simp+
  have a: "upload ''HRT majors'' (Some (Inr sheet_majors))
     = Inr (Some \<lparr>columns = [lab ''bronco id'', name_label], rows = [[Num 7, Str ''Z'']]\<rparr>,
            [Loaded 1 ''HRT majors''])"
    by (simp add: upload_def load_excel_file_def sheet_majors_def n st_dataframe_def head_def
        overflows_def fits_64_bits_def name_label_def)
      (simp add: lab_def)
  have b: "upload ''BBQ attendees'' (Some (Inr sheet_attendees))
     = Inr (Some \<lparr>columns = [lab ''student''], rows = [[Num 7]]\<rparr>,
            [Loaded 1 ''BBQ attendees''])"
    by (simp add: upload_def load_excel_file_def sheet_attendees_def n st_dataframe_def head_def
        overflows_def fits_64_bits_def)
  have c: "lab ''bronco id'' \<notin> set (columns \<lparr>columns = [lab ''bronco id'', name_label],
        rows = [[Num 7, Str ''Z'']]\<rparr>)
      \<or> lab ''bronco id'' \<notin> set (columns \<lparr>columns = [lab ''student''], rows = [[Num 7]]\<rparr>)"
    by (simp add: lab_def)
  have d: "lab ''bronco id'' \<notin> set (columns \<lparr>columns = [lab ''student''], rows = [[Num 7]]\<rparr>)"
    by (simp add: lab_def)
  from missing_column_rejected [OF a b c, of True] d a b show ?thesis
    by blast
qed

lemma getitem_Inr_present: "getitem df c = Inr s \<Longrightarrow> c \<in> set (columns df)"
  by (cases "c \<in> set (columns df)") (simp_all add: getitem_absent)

lemma first_valid_typed:
  assumes "\<exists>v \<in> set s. v \<noteq> NaN" and "\<forall>v \<in> set s. v \<noteq> NaN \<longrightarrow> type_name dt v = t"
  shows "\<exists>x. first_valid s = Some x \<and> type_name dt x = t"
proof (cases "dropna s")
  case Nil
  then have "\<forall>v \<in> set s. v = NaN"
    by (simp add: dropna_def filter_empty_conv)
  with assms(1) show ?thesis by blast
next
  case (Cons x xs)
  then have "x \<in> set (dropna s)" by simp
  then have "x \<in> set s" "x \<noteq> NaN" by (simp_all add: dropna_def)
  with assms(2) Cons show ?thesis by (simp add: first_valid_def)
qed

lemma name_col_present: "name_col cols = Some c \<Longrightarrow> c \<in> set cols"
  by (auto simp: name_col_def find_Some_iff)

lemma majors_line_ok:
  assumes "bbq_col \<in> set (columns bbq_df)" and "columns at_bbq = columns bbq_df"
  shows "\<exists>m. majors_line bbq_df bbq_col at_bbq = Inr m \<and> (\<forall>x \<in> set m. \<not> is_error x)"
proof -
  let ?c = "case name_col (columns bbq_df) of Some c \<Rightarrow> c | None \<Rightarrow> bbq_col"
  have "?c \<in> set (columns at_bbq)"
    using assms by (auto split: option.splits dest: name_col_present)
  then show ?thesis
    by (simp add: majors_line_def getitem_present)
qed

lemma exact_cell_fits: "exact_cell c \<Longrightarrow> \<not> overflows c"
  by (cases c) (auto simp: exact_cell_def overflows_def fits_64_bits_def)

lemma st_dataframe_drawn:
  assumes "distinct (columns df)" and "\<forall>r \<in> set (rows df). \<forall>c \<in> set r. exact_cell c"
  shows "st_dataframe df = None"
  using assms by (auto simp: st_dataframe_def dest: exact_cell_fits)

lemma filter_and_report_ok:
  assumes "hrt_col \<in> set (columns hrt_df)" and "bbq_col \<in> set (columns bbq_df)"
    and "non_hrt_attendees hrt_df hrt_col bbq_df bbq_col = Inr non"
    and "st_dataframe non = None"
  shows "\<exists>ms. filter_and_report hrt_df hrt_col bbq_df bbq_col
             = (ms, if rows non = [] then None else Some non)
           \<and> summary hrt_df bbq_df non \<in> set ms \<and> (\<forall>x \<in> set ms. \<not> is_error x)"
proof -
  obtain at_bbq where at: "hrt_at_bbq hrt_df hrt_col bbq_df bbq_col = Inr at_bbq"
    "columns at_bbq = columns bbq_df"
    using assms(1,2) by (simp add: hrt_at_bbq_filter)
  obtain m where m: "majors_line bbq_df bbq_col at_bbq = Inr m" "\<forall>x \<in> set m. \<not> is_error x"
    using majors_line_ok [OF assms(2) at(2)] by blast
  show ?thesis
    using assms(3,4) at(1) m by (auto simp: filter_and_report_def offer_def summary_def)
qed

lemma type_mismatch_first_values:
  assumes "wf_frame A" and "wf_frame B" and "exact_numbers B"
    and "ka \<noteq> []" and "kb \<noteq> []"
    and "getitem A ka = Inr hs" and "getitem B kb = Inr bs"
    and "first_valid hs = Some x" and "first_valid bs = Some y"
    and "type_name (dtype_of hs) x \<noteq> type_name (dtype_of bs) y"
  shows "\<exists>ms R. select_and_process A B (Some ka) (Some kb) True
                 = Inr (ms, if rows R = [] then None else Some R)
           \<and> Type_mismatch (type_name (dtype_of hs) x) (type_name (dtype_of bs) y) \<in> set ms
           \<and> (\<forall>m \<in> set ms. \<not> is_error m)
           \<and> non_hrt_attendees A ka B kb = Inr R
           \<and> rows R = filter (\<lambda>r. row_value B kb r \<notin> set hs) (rows B)
           \<and> summary A B R \<in> set ms"
proof -
  let ?ta = "type_name (dtype_of hs) x" and ?tb = "type_name (dtype_of bs) y"
  have ka: "ka \<in> set (columns A)" and kb: "kb \<in> set (columns B)"
    using assms(6,7) by (auto dest: getitem_Inr_present)
  have hs: "hs = map (row_value A ka) (rows A)"
    using assms(6) ka by (simp add: getitem_present)
  have v: "data_type_validation A ka B kb = Inr [Type_mismatch ?ta ?tb]"
    using assms(6-10) by (simp add: data_type_validation_def)
  have sel: "column_selection A B (Some ka) (Some kb) =
      Inr ([Sample_values (take 3 (dropna hs)), Sample_values (take 3 (dropna bs)),
            Comparison_setup ka kb, Type_mismatch ?ta ?tb])"
    using assms(4-7) v by (simp add: column_selection_def show_samples_def)
  let ?R = "B\<lparr>rows := filter (\<lambda>r. row_value B kb r \<notin> set hs) (rows B)\<rparr>"
  have R: "non_hrt_attendees A ka B kb = Inr ?R"
    using ka kb by (simp add: non_hrt_attendees_filter hs)
  have d: "st_dataframe ?R = None"
    using assms(2,3) by (intro st_dataframe_drawn) (auto simp: wf_frame_def exact_numbers_def)
  obtain m where m: "filter_and_report A ka B kb = (m, if rows ?R = [] then None else Some ?R)"
    "summary A B ?R \<in> set m" "\<forall>x \<in> set m. \<not> is_error x"
    using filter_and_report_ok [OF ka kb R d] by blast
  have p: "process_selected A B (Some ka) (Some kb) True
      = (m, if rows ?R = [] then None else Some ?R)"
    using assms(4,5) ka kb m(1) by (simp add: process_selected_def)
  have "select_and_process A B (Some ka) (Some kb) True
      = Inr ([Sample_values (take 3 (dropna hs)), Sample_values (take 3 (dropna bs)),
              Comparison_setup ka kb, Type_mismatch ?ta ?tb] @ m,
             if rows ?R = [] then None else Some ?R)"
    by (simp add: select_and_process_def sel p)
  then show ?thesis
    using R m(2,3) by (intro exI [of _ "_ @ m"] exI [of _ ?R]) auto
qed

text \<open>
  C5. In \<^verbatim>\<open>testing_area_app.py\<close>, for well-formed frames with exact numbers and chosen
  key labels, when the non-empty values of the majors' key column all have one type,
  those of the attendees' key column all have another, and both columns have a non-empty
  value, then a run with the button pressed ends normally: the mismatch is written as a
  warning naming the two types, no error is written, and the filter still runs, on the
  cells as they are: the summary is written, and the rows kept are the attendee rows
  whose key cell equals no cell of the majors' key column (a string never equals a
  number; a number equals the same number of a column of another numeric type).
\<close>

theorem type_mismatch_nonfatal:
  assumes "wf_frame A" and "wf_frame B" and "exact_numbers A" and "exact_numbers B"
    and "ka \<noteq> []" and "kb \<noteq> []"
    and "getitem A ka = Inr hs" and "getitem B kb = Inr bs"
    and "\<exists>v \<in> set hs. v \<noteq> NaN" and "\<exists>v \<in> set bs. v \<noteq> NaN"
    and "\<forall>v \<in> set hs. v \<noteq> NaN \<longrightarrow> type_name (dtype_of hs) v = ta"
    and "\<forall>v \<in> set bs. v \<noteq> NaN \<longrightarrow> type_name (dtype_of bs) v = tb"
    and "ta \<noteq> tb"
  shows "\<exists>ms R. select_and_process A B (Some ka) (Some kb) True
                 = Inr (ms, if rows R = [] then None else Some R)
           \<and> Type_mismatch ta tb \<in> set ms
           \<and> (\<forall>m \<in> set ms. \<not> is_error m)
           \<and> non_hrt_attendees A ka B kb = Inr R
           \<and> rows R = filter (\<lambda>r. row_value B kb r \<notin> set hs) (rows B)
           \<and> summary A B R \<in> set ms"
proof -
  obtain x where x: "first_valid hs = Some x" "type_name (dtype_of hs) x = ta"
    using first_valid_typed [OF assms(9,11)] by blast
  obtain y where y: "first_valid bs = Some y" "type_name (dtype_of bs) y = tb"
    using first_valid_typed [OF assms(10,12)] by blast
  have "type_name (dtype_of hs) x \<noteq> type_name (dtype_of bs) y"
    using x(2) y(2) assms(13) by simp
  from type_mismatch_first_values [OF assms(1,2,4,5,6,7,8) x(1) y(1) this]
  show ?thesis
    by (simp only: x(2) y(2))
qed

theorem type_mismatch_nonfatal_witness:
  "wf_frame majors_num \<and> wf_frame attendees_str
   \<and> exact_numbers majors_num \<and> exact_numbers attendees_str
   \<and> getitem majors_num id_label = Inr [Num 123, Num 5]
   \<and> getitem attendees_str (lab ''sid'') = Inr [Str ''abc'', Str ''123'']
   \<and> map (type_name (dtype_of [Num 123, Num 5])) (dropna [Num 123, Num 5])
       = [''int64'', ''int64'']
   \<and> map (type_name (dtype_of [Str ''abc'', Str ''123''])) (dropna [Str ''abc'', Str ''123''])
       = [''str'', ''str'']
   \<and> (\<exists>ms R. select_and_process majors_num attendees_str (Some id_label) (Some (lab ''sid''))
                 True = Inr (ms, Some R)
          \<and> Type_mismatch ''int64'' ''str'' \<in> set ms
          \<and> (\<forall>m \<in> set ms. \<not> is_error m)
          \<and> [Str ''123'', Str ''V''] \<in> set (rows R))
   \<and> wf_frame majors_float \<and> wf_frame attendees_int
   \<and> exact_numbers majors_float \<and> exact_numbers attendees_int
   \<and> getitem majors_float id_label = Inr [Num 2, NaN]
   \<and> getitem attendees_int (lab ''sid'') = Inr [Num 2, Num 3]
   \<and> map (type_name (dtype_of [Num 2, NaN])) (dropna [Num 2, NaN]) = [''float64'']
   \<and> map (type_name (dtype_of [Num 2, Num 3])) (dropna [Num 2, Num 3]) = [''int64'', ''int64'']
   \<and> (\<exists>ms R. select_and_process majors_float attendees_int (Some id_label) (Some (lab ''sid''))
                 True = Inr (ms, Some R)
          \<and> Type_mismatch ''float64'' ''int64'' \<in> set ms
          \<and> (\<forall>m \<in> set ms. \<not> is_error m)
          \<and> rows R = [[Num 3, Str ''T'']])"
proof -
  note dt = dtype_of_def is_str_def numbers_def fits_int64_def fits_uint64_def dropna_def
  note ex = exact_numbers_def exact_cell_def
  have n: "id_label \<noteq> []" "lab ''sid'' \<noteq> []"
    by (simp_all add: id_label_def lab_def)
  have d: "''int64'' \<noteq> ''str''" "''float64'' \<noteq> ''int64''"
    by simp_all
  have w1: "wf_frame majors_num" "wf_frame attendees_str"
    "exact_numbers majors_num" "exact_numbers attendees_str"
    by (simp_all add: ex_defs ex)
  have g1: "getitem majors_num id_label = Inr [Num 123, Num 5]"
    "getitem attendees_str (lab ''sid'') = Inr [Str ''abc'', Str ''123'']"
    by (simp_all add: getitem_def ex_defs)
  have e1: "\<exists>v \<in> set [Num 123, Num 5]. v \<noteq> NaN"
    "\<exists>v \<in> set [Str ''abc'', Str ''123'']. v \<noteq> NaN"
    by simp_all
  have t1: "\<forall>v \<in> set [Num 123, Num 5]. v \<noteq> NaN
      \<longrightarrow> type_name (dtype_of [Num 123, Num 5]) v = ''int64''"
    "\<forall>v \<in> set [Str ''abc'', Str ''123'']. v \<noteq> NaN
      \<longrightarrow> type_name (dtype_of [Str ''abc'', Str ''123'']) v = ''str''"
    by (simp_all add: dt)
  have s1: "map (type_name (dtype_of [Num 123, Num 5])) (dropna [Num 123, Num 5])
       = [''int64'', ''int64'']"
    "map (type_name (dtype_of [Str ''abc'', Str ''123''])) (dropna [Str ''abc'', Str ''123''])
       = [''str'', ''str'']"
    by (simp_all add: dt)
  from type_mismatch_nonfatal [OF w1 n g1 e1 t1 d(1)] obtain ms1 R1 where
    r1: "select_and_process majors_num attendees_str (Some id_label) (Some (lab ''sid'')) True
          = Inr (ms1, if rows R1 = [] then None else Some R1)"
      "Type_mismatch ''int64'' ''str'' \<in> set ms1"
      "\<forall>m \<in> set ms1. \<not> is_error m"
      "rows R1 = filter (\<lambda>r. row_value attendees_str (lab ''sid'') r \<notin> set [Num 123, Num 5])
                  (rows attendees_str)"
    by blast
  have "rows R1 = [[Str ''abc'', Str ''W''], [Str ''123'', Str ''V'']]"
    using r1(4) by (simp add: ex_defs)
  with r1(1,2,3) have c1:
    "\<exists>ms R. select_and_process majors_num attendees_str (Some id_label) (Some (lab ''sid''))
                 True = Inr (ms, Some R)
          \<and> Type_mismatch ''int64'' ''str'' \<in> set ms
          \<and> (\<forall>m \<in> set ms. \<not> is_error m)
          \<and> [Str ''123'', Str ''V''] \<in> set (rows R)"
    by auto
  have w2: "wf_frame majors_float" "wf_frame attendees_int"
    "exact_numbers majors_float" "exact_numbers attendees_int"
    by (simp_all add: ex_defs ex)
  have g2: "getitem majors_float id_label = Inr [Num 2, NaN]"
    "getitem attendees_int (lab ''sid'') = Inr [Num 2, Num 3]"
    by (simp_all add: getitem_def ex_defs)
  have e2: "\<exists>v \<in> set [Num 2, NaN]. v \<noteq> NaN" "\<exists>v \<in> set [Num 2, Num 3]. v \<noteq> NaN"
    by simp_all
  have t2: "\<forall>v \<in> set [Num 2, NaN]. v \<noteq> NaN
      \<longrightarrow> type_name (dtype_of [Num 2, NaN]) v = ''float64''"
    "\<forall>v \<in> set [Num 2, Num 3]. v \<noteq> NaN
      \<longrightarrow> type_name (dtype_of [Num 2, Num 3]) v = ''int64''"
    by (simp_all add: dt)
  have s2: "map (type_name (dtype_of [Num 2, NaN])) (dropna [Num 2, NaN]) = [''float64'']"
    "map (type_name (dtype_of [Num 2, Num 3])) (dropna [Num 2, Num 3]) = [''int64'', ''int64'']"
    by (simp_all add: dt)
  from type_mismatch_nonfatal [OF w2 n g2 e2 t2 d(2)] obtain ms2 R2 where
    r2: "select_and_process majors_float attendees_int (Some id_label) (Some (lab ''sid'')) True
          = Inr (ms2, if rows R2 = [] then None else Some R2)"
      "Type_mismatch ''float64'' ''int64'' \<in> set ms2"
      "\<forall>m \<in> set ms2. \<not> is_error m"
      "rows R2 = filter (\<lambda>r. row_value attendees_int (lab ''sid'') r \<notin> set [Num 2, NaN])
                  (rows attendees_int)"
    by blast
  have "rows R2 = [[Num 3, Str ''T'']]"
    using r2(4) by (simp add: ex_defs)
  with r2(1,2,3) have c2:
    "\<exists>ms R. select_and_process majors_float attendees_int (Some id_label) (Some (lab ''sid''))
                 True = Inr (ms, Some R)
          \<and> Type_mismatch ''float64'' ''int64'' \<in> set ms
          \<and> (\<forall>m \<in> set ms. \<not> is_error m)
          \<and> rows R = [[Num 3, Str ''T'']]"
    by auto
  show ?thesis
    using w1 g1 s1 c1 w2 g2 s2 c2 by (intro conjI)
qed

end
